theory Spec2Isabelle
  imports Main "HOL-Library.AList"
begin

section \<open>The community board data-access layer\<close>

text \<open>
  This theory embeds the request handlers of
  \<^verbatim>\<open>netlify/functions/community/index.cjs\<close>: the handlers that keep the post record,
  the global post list, the per-author lists, the category and tag sets, the like sets,
  the comment lists and the per-user bookmark sets of a key-value store in step.

  Conventions of the embedding.
  \<^item> The store is passed explicitly: a handler takes the store and returns its response
    together with the store it leaves behind.
  \<^item> Every key family of the source (\<^verbatim>\<open>community:post:<id>\<close>,
    \<^verbatim>\<open>user:<id>:posts\<close>, ...) is one component of the store, indexed by the
    interpolated part of the key. A key that was never written reads as the empty list or
    the empty set, as it does in the store of the source. The families differ in their
    fixed prefix or suffix, and the identifiers of posts and comments are drawn from an
    alphabet without a colon, so two families never share a key of a post or comment.
  \<^item> The bookmark sets are the one family the source enumerates by key pattern
    (\<^verbatim>\<open>redis.keys('user:*:bookmarks')\<close>), so they are an association list, whose
    keys can be listed; a set that becomes empty loses its key.
  \<^item> Request bodies carry their fields at the types the client declares (strings, and
    a list of strings for tags); a field may be absent.
  \<^item> The source writes the \<^verbatim>\<open>tags\<close> field as the JSON text of a list of strings
    (\<^verbatim>\<open>JSON.stringify\<close>). The client of the store, built with its default options,
    parses every field it reads that is JSON, so \<^verbatim>\<open>hgetall\<close> hands a handler that
    list itself, not its text; the \<open>tags\<close> component of a stored post is that list.
    Where a handler applies \<^verbatim>\<open>JSON.parse\<close> to the field once more, the list is first
    turned into text, its elements joined by commas, and that text is parsed: this is
    \<open>reparse_tags\<close> below. The other fields hold free text and are read back as written.
  \<^item> A handler that raises is answered by the \<^verbatim>\<open>catch\<close> of \<^verbatim>\<open>exports.handler\<close> with
    status 500 and \<^verbatim>\<open>Internal server error\<close>; the store keeps what was written
    before the raise.
  \<^item> Instants are milliseconds since the epoch (\<^verbatim>\<open>new Date(x).getTime()\<close> of the ISO
    text the source stores). The clock and the identifier generator are inputs of the
    handlers that use them.
  \<^item> Strings are lists of bytes: the UTF-8 form of the source's strings.
  \<^item> The text JavaScript gives a number is floating-point printing; it is an input
    (\<open>nt\<close>, from the number's JSON literal to its text) of the handlers that can need it.
\<close>

subsection \<open>Records of the store\<close>

record post =
  post_id :: string
  title :: string
  content :: string
  category :: string
  tags :: "string list"
  authorId :: string
  authorName :: string
  createdAt :: int
  updatedAt :: int

record comment =
  comment_id :: string
  c_postId :: string
  c_content :: string
  c_authorId :: string
  c_authorName :: string
  c_createdAt :: int

record user =
  name :: "string option"
  username :: "string option"
  role :: "string option"

record store =
  post_hash :: "string \<rightharpoonup> post"
  posts_list :: "string list"
  user_posts :: "string \<Rightarrow> string list"
  category_set :: "string \<Rightarrow> string set"
  tag_set :: "string \<Rightarrow> string set"
  post_likes :: "string \<Rightarrow> string set"
  post_comments :: "string \<Rightarrow> string list"
  comment_hash :: "string \<rightharpoonup> comment"
  comment_likes :: "string \<Rightarrow> string set"
  user_comments :: "string \<Rightarrow> string list"
  user_bookmarks :: "(string \<times> string set) list"

subsection \<open>Requests and responses\<close>

record post_body =
  b_title :: "string option"
  b_content :: "string option"
  b_category :: "string option"
  b_tags :: "string list option"

text \<open>
  The response objects. Creating a post answers with the object it has just built;
  reading and updating answer with the fields read from the store, the \<^verbatim>\<open>tags\<close>
  replaced by what the handler parsed, and the derived counts.
\<close>

record post_view =
  pv_post :: post
  likes :: nat
  comments :: nat

record comment_view =
  cv_comment :: comment
  cv_likes :: nat

text \<open>
  A response is its status code with either \<^verbatim>\<open>{success: true, data}\<close> or
  \<^verbatim>\<open>{success: false, error}\<close>.
\<close>

datatype 'a response = Success nat 'a | Failure nat string

fun statusCode :: "'a response \<Rightarrow> nat" where
  "statusCode (Success c _) = c"
| "statusCode (Failure c _) = c"

subsection \<open>The store's primitives\<close>

definition lpush :: "string \<Rightarrow> string \<Rightarrow> (string \<Rightarrow> string list) \<Rightarrow> (string \<Rightarrow> string list)" where
  "lpush k v f = f(k := v # f k)"

text \<open>\<^verbatim>\<open>lrem key 0 v\<close> removes every occurrence of \<open>v\<close>.\<close>

definition lrem :: "string \<Rightarrow> string \<Rightarrow> (string \<Rightarrow> string list) \<Rightarrow> (string \<Rightarrow> string list)" where
  "lrem k v f = f(k := removeAll v (f k))"

definition sadd :: "string \<Rightarrow> string \<Rightarrow> (string \<Rightarrow> string set) \<Rightarrow> (string \<Rightarrow> string set)" where
  "sadd k v f = f(k := insert v (f k))"

definition srem :: "string \<Rightarrow> string \<Rightarrow> (string \<Rightarrow> string set) \<Rightarrow> (string \<Rightarrow> string set)" where
  "srem k v f = f(k := f k - {v})"

text \<open>The bookmark family, with its keys listed.\<close>

definition smembers_al :: "(string \<times> string set) list \<Rightarrow> string \<Rightarrow> string set" where
  "smembers_al t k = (case map_of t k of None \<Rightarrow> {} | Some S \<Rightarrow> S)"

definition sadd_al :: "string \<Rightarrow> string \<Rightarrow> (string \<times> string set) list \<Rightarrow> (string \<times> string set) list" where
  "sadd_al k v t = AList.update k (insert v (smembers_al t k)) t"

definition srem_al :: "string \<Rightarrow> string \<Rightarrow> (string \<times> string set) list \<Rightarrow> (string \<times> string set) list" where
  "srem_al k v t =
     (let S = smembers_al t k - {v}
      in if S = {} then AList.delete k t else AList.update k S t)"

definition keys_al :: "(string \<times> string set) list \<Rightarrow> string list" where
  "keys_al t = remdups (map fst t)"

subsection \<open>Truthiness and strings\<close>

text \<open>A string-valued field is truthy when it is present and not the empty string.\<close>

definition truthy :: "string option \<Rightarrow> bool" where
  "truthy x = (case x of None \<Rightarrow> False | Some v \<Rightarrow> v \<noteq> [])"

text \<open>\<^verbatim>\<open>user.name || user.username || 'Anonymous'\<close>\<close>

definition display_name :: "user \<Rightarrow> string" where
  "display_name u =
     (if truthy (name u) then the (name u)
      else if truthy (username u) then the (username u)
      else ''Anonymous'')"

text \<open>
  \<^verbatim>\<open>s.trim()\<close> removes white space and line terminators from both ends: the six
  ASCII ones, and U+00A0, U+1680, U+2000 to U+200A, U+2028, U+2029, U+202F, U+205F,
  U+3000 and U+FEFF, which are two or three bytes each.
\<close>

definition is_space :: "char \<Rightarrow> bool" where
  "is_space c =
     (c = CHR '' '' \<or> c = CHR 0x09 \<or> c = CHR 0x0A \<or> c = CHR 0x0B \<or> c = CHR 0x0C \<or> c = CHR 0x0D)"

definition space2 :: "char \<Rightarrow> char \<Rightarrow> bool" where
  "space2 a b = (a = CHR 0xC2 \<and> b = CHR 0xA0)"

definition space3 :: "char \<Rightarrow> char \<Rightarrow> char \<Rightarrow> bool" where
  "space3 a b c =
     ((a = CHR 0xE1 \<and> b = CHR 0x9A \<and> c = CHR 0x80)
    \<or> (a = CHR 0xE2 \<and> b = CHR 0x80 \<and>
         c \<in> set [CHR 0x80, CHR 0x81, CHR 0x82, CHR 0x83, CHR 0x84, CHR 0x85, CHR 0x86,
                  CHR 0x87, CHR 0x88, CHR 0x89, CHR 0x8A, CHR 0xA8, CHR 0xA9, CHR 0xAF])
    \<or> (a = CHR 0xE2 \<and> b = CHR 0x81 \<and> c = CHR 0x9F)
    \<or> (a = CHR 0xE3 \<and> b = CHR 0x80 \<and> c = CHR 0x80)
    \<or> (a = CHR 0xEF \<and> b = CHR 0xBB \<and> c = CHR 0xBF))"

text \<open>
  Stripping from the front. With \<open>rv\<close> set the string is a reversed one, so the bytes of
  a character come last byte first.
\<close>

fun strip_spaces :: "bool \<Rightarrow> string \<Rightarrow> string" where
  "strip_spaces rv [] = []"
| "strip_spaces rv [a] = (if is_space a then [] else [a])"
| "strip_spaces rv [a, b] =
     (if is_space a then strip_spaces rv [b]
      else if (if rv then space2 b a else space2 a b) then []
      else [a, b])"
| "strip_spaces rv (a # b # c # s) =
     (if is_space a then strip_spaces rv (b # c # s)
      else if (if rv then space2 b a else space2 a b) then strip_spaces rv (c # s)
      else if (if rv then space3 c b a else space3 a b c) then strip_spaces rv s
      else a # b # c # s)"

definition trim :: "string \<Rightarrow> string" where
  "trim s = rev (strip_spaces True (rev (strip_spaces False s)))"

text \<open>\<^verbatim>\<open>s.split(',')\<close>: the pieces between the separators, empty pieces kept.\<close>

fun split_str :: "char \<Rightarrow> string \<Rightarrow> string list" where
  "split_str sep [] = [[]]"
| "split_str sep (x # xs) =
     (if x = sep then [] # split_str sep xs
      else (case split_str sep xs of
              [] \<Rightarrow> [[x]]
            | w # ws \<Rightarrow> (x # w) # ws))"

subsection \<open>JSON.parse\<close>

text \<open>
  The values of JSON. A number is kept as its literal; a text that is not JSON makes
  \<^verbatim>\<open>JSON.parse\<close> raise a \<^verbatim>\<open>SyntaxError\<close>, which is \<open>None\<close> here.
\<close>

datatype jsval = JNull | JBool bool | JNum string | JStr string | JArr "jsval list"
  | JObj "(string \<times> jsval) list"

text \<open>The tokens of a JSON text, and the states of reading one character by character.\<close>

datatype token = TLBrace | TRBrace | TLBrack | TRBrack | TColon | TComma
  | TString string | TNumber string | TTrue | TFalse | TNull

datatype num_state = NMinus | NZero | NInt | NDot | NFrac | NExp | NExpSign | NExpDigits

datatype lex_state = LStart | LLit string token | LStr string "nat option"
  | LEsc string "nat option" | LUni string "nat option" "nat list" | LNum num_state string

text \<open>
  The number grammar: an optional minus, zero or a run of digits not starting with zero,
  an optional fraction, an optional exponent.
\<close>

definition is_digit :: "char \<Rightarrow> bool" where
  "is_digit c = (c \<in> set ''0123456789'')"

definition hex_value :: "char \<Rightarrow> nat option" where
  "hex_value c = map_of
     [(CHR ''0'', 0), (CHR ''1'', 1), (CHR ''2'', 2), (CHR ''3'', 3), (CHR ''4'', 4),
      (CHR ''5'', 5), (CHR ''6'', 6), (CHR ''7'', 7), (CHR ''8'', 8), (CHR ''9'', 9),
      (CHR ''a'', 10), (CHR ''b'', 11), (CHR ''c'', 12), (CHR ''d'', 13), (CHR ''e'', 14),
      (CHR ''f'', 15), (CHR ''A'', 10), (CHR ''B'', 11), (CHR ''C'', 12), (CHR ''D'', 13),
      (CHR ''E'', 14), (CHR ''F'', 15)] c"

text \<open>
  A \<^verbatim>\<open>\uXXXX\<close> escape names a UTF-16 code unit; a high surrogate followed by a low
  one is one character, and the bytes of a character are its UTF-8 form.
\<close>

definition utf8 :: "nat \<Rightarrow> string" where
  "utf8 n =
     (if n < 0x80 then [char_of n]
      else if n < 0x800 then [char_of (0xC0 + n div 0x40), char_of (0x80 + n mod 0x40)]
      else if n < 0x10000
      then [char_of (0xE0 + n div 0x1000), char_of (0x80 + n div 0x40 mod 0x40),
            char_of (0x80 + n mod 0x40)]
      else [char_of (0xF0 + n div 0x40000), char_of (0x80 + n div 0x1000 mod 0x40),
            char_of (0x80 + n div 0x40 mod 0x40), char_of (0x80 + n mod 0x40)])"

definition flush :: "nat option \<Rightarrow> string \<Rightarrow> string" where
  "flush pend acc = (case pend of None \<Rightarrow> acc | Some h \<Rightarrow> rev (utf8 h) @ acc)"

definition code_unit :: "nat option \<Rightarrow> nat \<Rightarrow> string \<Rightarrow> lex_state" where
  "code_unit pend n acc =
     (case pend of
        Some h \<Rightarrow>
          if 0xDC00 \<le> n \<and> n < 0xE000
          then LStr (rev (utf8 (0x10000 + (h - 0xD800) * 0x400 + (n - 0xDC00))) @ acc) None
          else if 0xD800 \<le> n \<and> n < 0xDC00 then LStr (rev (utf8 h) @ acc) (Some n)
          else LStr (rev (utf8 n) @ rev (utf8 h) @ acc) None
      | None \<Rightarrow>
          if 0xD800 \<le> n \<and> n < 0xDC00 then LStr acc (Some n)
          else LStr (rev (utf8 n) @ acc) None)"

definition lex_start :: "char \<Rightarrow> token list \<Rightarrow> (lex_state \<times> token list) option" where
  "lex_start c out =
     (if c \<in> set [CHR '' '', CHR 0x09, CHR 0x0A, CHR 0x0D] then Some (LStart, out)
      else if c = CHR ''{'' then Some (LStart, TLBrace # out)
      else if c = CHR ''}'' then Some (LStart, TRBrace # out)
      else if c = CHR ''['' then Some (LStart, TLBrack # out)
      else if c = CHR '']'' then Some (LStart, TRBrack # out)
      else if c = CHR '':'' then Some (LStart, TColon # out)
      else if c = CHR '','' then Some (LStart, TComma # out)
      else if c = CHR 0x22 then Some (LStr [] None, out)
      else if c = CHR ''-'' then Some (LNum NMinus [c], out)
      else if c = CHR ''0'' then Some (LNum NZero [c], out)
      else if is_digit c then Some (LNum NInt [c], out)
      else if c = CHR ''t'' then Some (LLit ''rue'' TTrue, out)
      else if c = CHR ''f'' then Some (LLit ''alse'' TFalse, out)
      else if c = CHR ''n'' then Some (LLit ''ull'' TNull, out)
      else None)"

text \<open>One character of a number: the next state, the end of the number, or an error.\<close>

datatype num_step = NumGo num_state | NumEnd | NumError

definition num_next :: "num_state \<Rightarrow> char \<Rightarrow> num_step" where
  "num_next st c =
     (let e = (c = CHR ''e'' \<or> c = CHR ''E'')
      in case st of
           NMinus \<Rightarrow> if c = CHR ''0'' then NumGo NZero else if is_digit c then NumGo NInt
                      else NumError
         | NZero \<Rightarrow> if c = CHR ''.'' then NumGo NDot else if e then NumGo NExp else NumEnd
         | NInt \<Rightarrow> if is_digit c then NumGo NInt else if c = CHR ''.'' then NumGo NDot
                    else if e then NumGo NExp else NumEnd
         | NDot \<Rightarrow> if is_digit c then NumGo NFrac else NumError
         | NFrac \<Rightarrow> if is_digit c then NumGo NFrac else if e then NumGo NExp else NumEnd
         | NExp \<Rightarrow> if c = CHR ''+'' \<or> c = CHR ''-'' then NumGo NExpSign
                    else if is_digit c then NumGo NExpDigits else NumError
         | NExpSign \<Rightarrow> if is_digit c then NumGo NExpDigits else NumError
         | NExpDigits \<Rightarrow> if is_digit c then NumGo NExpDigits else NumEnd)"

definition num_final :: "num_state \<Rightarrow> bool" where
  "num_final st = (st = NZero \<or> st = NInt \<or> st = NFrac \<or> st = NExpDigits)"

definition lex_step :: "lex_state \<Rightarrow> char \<Rightarrow> token list \<Rightarrow> (lex_state \<times> token list) option" where
  "lex_step st c out =
     (case st of
        LStart \<Rightarrow> lex_start c out
      | LLit rest tok \<Rightarrow>
          (case rest of
             [] \<Rightarrow> None
           | x # xs \<Rightarrow> if c \<noteq> x then None
                       else if xs = [] then Some (LStart, tok # out)
                       else Some (LLit xs tok, out))
      | LStr acc pend \<Rightarrow>
          if c = CHR 0x22 then Some (LStart, TString (rev (flush pend acc)) # out)
          else if c = CHR 0x5C then Some (LEsc acc pend, out)
          else if (of_char c :: nat) < 0x20 then None
          else Some (LStr (c # flush pend acc) None, out)
      | LEsc acc pend \<Rightarrow>
          if c = CHR ''u'' then Some (LUni acc pend [], out)
          else (case map_of [(CHR 0x22, CHR 0x22), (CHR 0x5C, CHR 0x5C), (CHR ''/'', CHR ''/''),
                             (CHR ''b'', CHR 0x08), (CHR ''f'', CHR 0x0C), (CHR ''n'', CHR 0x0A),
                             (CHR ''r'', CHR 0x0D), (CHR ''t'', CHR 0x09)] c of
                  None \<Rightarrow> None
                | Some d \<Rightarrow> Some (LStr (d # flush pend acc) None, out))
      | LUni acc pend ds \<Rightarrow>
          (case hex_value c of
             None \<Rightarrow> None
           | Some d \<Rightarrow>
               if length ds < 3 then Some (LUni acc pend (ds @ [d]), out)
               else Some (code_unit pend (foldl (\<lambda>n x. 16 * n + x) 0 (ds @ [d])) acc, out))
      | LNum ns lit \<Rightarrow>
          (case num_next ns c of
             NumGo ns' \<Rightarrow> Some (LNum ns' (c # lit), out)
           | NumEnd \<Rightarrow> lex_start c (TNumber (rev lit) # out)
           | NumError \<Rightarrow> None))"

fun lex :: "lex_state \<Rightarrow> token list \<Rightarrow> string \<Rightarrow> token list option" where
  "lex st out [] =
     (case st of
        LStart \<Rightarrow> Some (rev out)
      | LNum ns lit \<Rightarrow> if num_final ns then Some (rev (TNumber (rev lit) # out)) else None
      | _ \<Rightarrow> None)"
| "lex st out (c # cs) =
     (case lex_step st c out of None \<Rightarrow> None | Some (st', out') \<Rightarrow> lex st' out' cs)"

text \<open>
  The values are built on a stack of the arrays and objects that are still open. The
  members of an object are kept as written.
\<close>

datatype frame = FArray "jsval list" | FObject "(string \<times> jsval) list"
  | FMember "(string \<times> jsval) list" string

datatype parse_state = ExpValue "frame list" | ExpValueOrClose "frame list"
  | ExpKeyOrClose "frame list" | ExpKey "frame list" | ExpColon "frame list"
  | ExpCommaOrClose "frame list" | Done jsval

definition push_value :: "jsval \<Rightarrow> frame list \<Rightarrow> parse_state option" where
  "push_value v st =
     (case st of
        [] \<Rightarrow> Some (Done v)
      | FArray es # r \<Rightarrow> Some (ExpCommaOrClose (FArray (v # es) # r))
      | FMember ms k # r \<Rightarrow> Some (ExpCommaOrClose (FObject ((k, v) # ms) # r))
      | FObject ms # r \<Rightarrow> None)"

definition start_value :: "token \<Rightarrow> frame list \<Rightarrow> parse_state option" where
  "start_value t st =
     (case t of
        TString x \<Rightarrow> push_value (JStr x) st
      | TNumber x \<Rightarrow> push_value (JNum x) st
      | TTrue \<Rightarrow> push_value (JBool True) st
      | TFalse \<Rightarrow> push_value (JBool False) st
      | TNull \<Rightarrow> push_value JNull st
      | TLBrack \<Rightarrow> Some (ExpValueOrClose (FArray [] # st))
      | TLBrace \<Rightarrow> Some (ExpKeyOrClose (FObject [] # st))
      | _ \<Rightarrow> None)"

definition parse_step :: "parse_state \<Rightarrow> token \<Rightarrow> parse_state option" where
  "parse_step ps t =
     (case ps of
        ExpValue st \<Rightarrow> start_value t st
      | ExpValueOrClose st \<Rightarrow>
          (case (t, st) of
             (TRBrack, FArray es # r) \<Rightarrow> push_value (JArr (rev es)) r
           | _ \<Rightarrow> start_value t st)
      | ExpKeyOrClose st \<Rightarrow>
          (case (t, st) of
             (TRBrace, FObject ms # r) \<Rightarrow> push_value (JObj (rev ms)) r
           | (TString k, FObject ms # r) \<Rightarrow> Some (ExpColon (FMember ms k # r))
           | _ \<Rightarrow> None)
      | ExpKey st \<Rightarrow>
          (case (t, st) of
             (TString k, FObject ms # r) \<Rightarrow> Some (ExpColon (FMember ms k # r))
           | _ \<Rightarrow> None)
      | ExpColon st \<Rightarrow> (case t of TColon \<Rightarrow> Some (ExpValue st) | _ \<Rightarrow> None)
      | ExpCommaOrClose st \<Rightarrow>
          (case (t, st) of
             (TComma, FArray es # r) \<Rightarrow> Some (ExpValue st)
           | (TRBrack, FArray es # r) \<Rightarrow> push_value (JArr (rev es)) r
           | (TComma, FObject ms # r) \<Rightarrow> Some (ExpKey st)
           | (TRBrace, FObject ms # r) \<Rightarrow> push_value (JObj (rev ms)) r
           | _ \<Rightarrow> None)
      | Done v \<Rightarrow> None)"

fun parse_tokens :: "parse_state \<Rightarrow> token list \<Rightarrow> jsval option" where
  "parse_tokens ps [] = (case ps of Done v \<Rightarrow> Some v | _ \<Rightarrow> None)"
| "parse_tokens ps (t # ts) =
     (case parse_step ps t of None \<Rightarrow> None | Some ps' \<Rightarrow> parse_tokens ps' ts)"

definition JSON_parse :: "string \<Rightarrow> jsval option" where
  "JSON_parse text =
     (case lex LStart [] text of None \<Rightarrow> None | Some ts \<Rightarrow> parse_tokens (ExpValue []) ts)"

subsection \<open>Values as text, and iteration\<close>

text \<open>
  \<^verbatim>\<open>String(v)\<close>, which a template literal applies: an array is its elements joined by
  commas, \<^verbatim>\<open>null\<close> elements as the empty text; an object is \<^verbatim>\<open>[object Object]\<close>.
\<close>

fun join_comma :: "string list \<Rightarrow> string" where
  "join_comma [] = []"
| "join_comma [x] = x"
| "join_comma (x # y # r) = x @ '','' @ join_comma (y # r)"

fun js_string :: "(string \<Rightarrow> string) \<Rightarrow> jsval \<Rightarrow> string"
  and js_elements :: "(string \<Rightarrow> string) \<Rightarrow> jsval list \<Rightarrow> string list" where
  "js_string nt JNull = ''null''"
| "js_string nt (JBool b) = (if b then ''true'' else ''false'')"
| "js_string nt (JNum lit) = nt lit"
| "js_string nt (JStr x) = x"
| "js_string nt (JArr xs) = join_comma (js_elements nt xs)"
| "js_string nt (JObj ms) = ''[object Object]''"
| "js_elements nt [] = []"
| "js_elements nt (x # xs) =
     (if x = JNull then [] else js_string nt x) # js_elements nt xs"

text \<open>The characters of a string: a byte that is no continuation byte, with those after it.\<close>

definition is_continuation :: "char \<Rightarrow> bool" where
  "is_continuation c = (0x80 \<le> (of_char c :: nat) \<and> (of_char c :: nat) < 0xC0)"

fun code_points :: "string \<Rightarrow> string list" where
  "code_points [] = []"
| "code_points (c # cs) =
     (case code_points cs of
        [] \<Rightarrow> [[c]]
      | [] # gs \<Rightarrow> [c] # gs
      | (d # g) # gs \<Rightarrow>
          if is_continuation d then (c # d # g) # gs else [c] # (d # g) # gs)"

text \<open>
  \<^verbatim>\<open>for (const tag of v)\<close> with \<^verbatim>\<open>`...${tag}`\<close> in the body: the texts of the
  elements of an array, the characters of a string, and a \<^verbatim>\<open>TypeError\<close> (\<open>None\<close>) for
  a number, a boolean, \<^verbatim>\<open>null\<close> or an object.
\<close>

definition iterate :: "(string \<Rightarrow> string) \<Rightarrow> jsval \<Rightarrow> string list option" where
  "iterate nt v =
     (case v of
        JArr xs \<Rightarrow> Some (map (js_string nt) xs)
      | JStr x \<Rightarrow> Some (code_points x)
      | _ \<Rightarrow> None)"

subsection \<open>Parsing the tags again\<close>

text \<open>
  \<^verbatim>\<open>JSON.parse(postData.tags || '[]')\<close>, where \<^verbatim>\<open>postData.tags\<close> is the list the
  client has parsed already: a list is truthy, and \<^verbatim>\<open>JSON.parse\<close> turns its
  argument into text first.
\<close>

definition reparse_tags :: "string list \<Rightarrow> jsval option" where
  "reparse_tags ts = JSON_parse (join_comma ts)"

text \<open>
  The guarded form of the two readers:
  \<^verbatim>\<open>let parsedTags = []; try { parsedTags = JSON.parse(...) } catch (e) { ... }\<close>.
\<close>

definition parsed_tags :: "string list \<Rightarrow> jsval" where
  "parsed_tags ts = (case reparse_tags ts of None \<Rightarrow> JArr [] | Some v \<Rightarrow> v)"

subsection \<open>Reading a post\<close>

text \<open>
  Every handler starts with \<^verbatim>\<open>hgetall\<close> on the post's key and treats a missing hash and a
  hash without an \<^verbatim>\<open>id\<close> alike: \<^verbatim>\<open>if (!postData || !postData.id)\<close>.
\<close>

definition post_record :: "store \<Rightarrow> string \<Rightarrow> post option" where
  "post_record s postId =
     (case post_hash s postId of
        None \<Rightarrow> None
      | Some postData \<Rightarrow> if post_id postData = [] then None else Some postData)"

text \<open>\<^verbatim>\<open>{...postData, tags: parsedTags, likes: likeCount, comments: commentCount}\<close>\<close>

record post_read =
  pr_id :: string
  pr_title :: string
  pr_content :: string
  pr_category :: string
  pr_tags :: jsval
  pr_authorId :: string
  pr_authorName :: string
  pr_createdAt :: int
  pr_updatedAt :: int
  pr_likes :: nat
  pr_comments :: nat

definition read_view :: "post \<Rightarrow> jsval \<Rightarrow> nat \<Rightarrow> nat \<Rightarrow> post_read" where
  "read_view p parsedTags likeCount commentCount =
     \<lparr>pr_id = post_id p, pr_title = title p, pr_content = content p,
      pr_category = category p, pr_tags = parsedTags, pr_authorId = authorId p,
      pr_authorName = authorName p, pr_createdAt = createdAt p, pr_updatedAt = updatedAt p,
      pr_likes = likeCount, pr_comments = commentCount\<rparr>"

definition handleGetPost :: "string \<Rightarrow> store \<Rightarrow> post_read response" where
  "handleGetPost postId s =
     (case post_record s postId of
        None \<Rightarrow> Failure 404 ''Post not found''
      | Some postData \<Rightarrow>
          Success 200 (read_view postData (parsed_tags (tags postData))
                         (card (post_likes s postId)) (length (post_comments s postId))))"

subsection \<open>Creating a post\<close>

definition handleCreatePost ::
  "post_body \<Rightarrow> string \<Rightarrow> user \<Rightarrow> string \<Rightarrow> int \<Rightarrow> store \<Rightarrow> post_view response \<times> store" where
  "handleCreatePost body userId usr postId now s =
     (let category' = (case b_category body of None \<Rightarrow> ''discussion'' | Some c \<Rightarrow> c);
          tags' = (case b_tags body of None \<Rightarrow> [] | Some ts \<Rightarrow> ts)
      in if \<not> truthy (b_title body) \<or> \<not> truthy (b_content body)
         then (Failure 400 ''Title and content are required'', s)
         else
           let p = \<lparr>post_id = postId, title = the (b_title body), content = the (b_content body),
                    category = category', tags = tags', authorId = userId,
                    authorName = display_name usr, createdAt = now, updatedAt = now\<rparr>;
               s1 = s\<lparr>post_hash := (post_hash s)(postId \<mapsto> p)\<rparr>;
               s2 = s1\<lparr>posts_list := postId # posts_list s1\<rparr>;
               s3 = s2\<lparr>user_posts := lpush userId postId (user_posts s2)\<rparr>;
               s4 = s3\<lparr>category_set := sadd category' postId (category_set s3)\<rparr>;
               s5 = s4\<lparr>tag_set := fold (\<lambda>tag. sadd tag postId) tags' (tag_set s4)\<rparr>
           in (Success 201 \<lparr>pv_post = p, likes = 0, comments = 0\<rparr>, s5))"

subsection \<open>Updating a post\<close>

text \<open>
  The category is re-indexed before the tags are looked at. With tags in the body the
  stored tags are parsed again, unguarded, before anything else is written for them and
  before the record is written; without, they are parsed again for the response, after
  the record was written.
\<close>

definition handleUpdatePost ::
  "(string \<Rightarrow> string) \<Rightarrow> post_body \<Rightarrow> string \<Rightarrow> string \<Rightarrow> user \<Rightarrow> int \<Rightarrow> store
     \<Rightarrow> post_read response \<times> store" where
  "handleUpdatePost nt body postId userId usr now s =
     (case post_record s postId of
        None \<Rightarrow> (Failure 404 ''Post not found'', s)
      | Some postData \<Rightarrow>
          if authorId postData \<noteq> userId \<and> role usr \<noteq> Some ''admin''
          then (Failure 403 ''You do not have permission to update this post'', s)
          else
            let u0 = postData\<lparr>updatedAt := now\<rparr>;
                u1 = (if truthy (b_title body) then u0\<lparr>title := the (b_title body)\<rparr> else u0);
                u2 = (if truthy (b_content body) then u1\<lparr>content := the (b_content body)\<rparr> else u1);
                changed = (truthy (b_category body) \<and> the (b_category body) \<noteq> category postData);
                s1 = (if changed
                      then s\<lparr>category_set :=
                               sadd (the (b_category body)) postId
                                 (srem (category postData) postId (category_set s))\<rparr>
                      else s);
                u3 = (if changed then u2\<lparr>category := the (b_category body)\<rparr> else u2)
            in (case b_tags body of
                  Some ts \<Rightarrow>
                    (case reparse_tags (tags postData) of
                       None \<Rightarrow> (Failure 500 ''Internal server error'', s1)
                     | Some oldTags \<Rightarrow>
                         (case iterate nt oldTags of
                            None \<Rightarrow> (Failure 500 ''Internal server error'', s1)
                          | Some oldKeys \<Rightarrow>
                              let s2 = s1\<lparr>tag_set :=
                                          fold (\<lambda>tag. sadd tag postId) ts
                                            (fold (\<lambda>tag. srem tag postId) oldKeys (tag_set s1))\<rparr>;
                                  u4 = u3\<lparr>tags := ts\<rparr>;
                                  s3 = s2\<lparr>post_hash := (post_hash s2)(postId \<mapsto> u4)\<rparr>
                              in (Success 200
                                    (read_view u4 (JArr (map JStr ts))
                                       (card (post_likes s3 postId))
                                       (length (post_comments s3 postId))), s3)))
                | None \<Rightarrow>
                    let s3 = s1\<lparr>post_hash := (post_hash s1)(postId \<mapsto> u3)\<rparr>
                    in (case reparse_tags (tags u3) of
                          None \<Rightarrow> (Failure 500 ''Internal server error'', s3)
                        | Some parsedTags \<Rightarrow>
                            (Success 200
                               (read_view u3 parsedTags
                                  (card (post_likes s3 postId))
                                  (length (post_comments s3 postId))), s3))))"

subsection \<open>Deleting a post\<close>

text \<open>
  The record, the two list entries and the category entry are removed first. Then the
  stored tags are parsed again, unguarded; what follows runs only when that parse and
  the iteration over its result succeed.
\<close>

definition handleDeletePost ::
  "(string \<Rightarrow> string) \<Rightarrow> string \<Rightarrow> string \<Rightarrow> user \<Rightarrow> store \<Rightarrow> string response \<times> store" where
  "handleDeletePost nt postId userId usr s =
     (case post_record s postId of
        None \<Rightarrow> (Failure 404 ''Post not found'', s)
      | Some postData \<Rightarrow>
          if authorId postData \<noteq> userId \<and> role usr \<noteq> Some ''admin''
          then (Failure 403 ''You do not have permission to delete this post'', s)
          else
            let s1 = s\<lparr>post_hash := (post_hash s)(postId := None)\<rparr>;
                s2 = s1\<lparr>posts_list := removeAll postId (posts_list s1)\<rparr>;
                s3 = s2\<lparr>user_posts := lrem (authorId postData) postId (user_posts s2)\<rparr>;
                s4 = s3\<lparr>category_set := srem (category postData) postId (category_set s3)\<rparr>
            in (case reparse_tags (tags postData) of
                  None \<Rightarrow> (Failure 500 ''Internal server error'', s4)
                | Some parsedTags \<Rightarrow>
                    (case iterate nt parsedTags of
                       None \<Rightarrow> (Failure 500 ''Internal server error'', s4)
                     | Some keys \<Rightarrow>
                         let s5 = s4\<lparr>tag_set := fold (\<lambda>tag. srem tag postId) keys (tag_set s4)\<rparr>;
                             s6 = s5\<lparr>post_likes := (post_likes s5)(postId := {})\<rparr>;
                             s7 = s6\<lparr>post_comments := (post_comments s6)(postId := [])\<rparr>;
                             s8 = s7\<lparr>user_bookmarks :=
                                      fold (\<lambda>key. srem_al key postId) (keys_al (user_bookmarks s7))
                                        (user_bookmarks s7)\<rparr>
                         in (Success 200 ''Post deleted successfully'', s8))))"

subsection \<open>Comments\<close>

definition load_comment :: "store \<Rightarrow> string \<Rightarrow> comment_view option" where
  "load_comment s cid =
     (case comment_hash s cid of
        None \<Rightarrow> None
      | Some data \<Rightarrow>
          if comment_id data = [] then None
          else Some \<lparr>cv_comment = data, cv_likes = card (comment_likes s cid)\<rparr>)"

text \<open>
  \<^verbatim>\<open>lrange key 0 -1\<close> reads the whole list from its head; the comments whose hash is
  missing are dropped from the mapped list.
\<close>

definition handleGetComments :: "string \<Rightarrow> store \<Rightarrow> comment_view list response" where
  "handleGetComments postId s =
     (case post_record s postId of
        None \<Rightarrow> Failure 404 ''Post not found''
      | Some postData \<Rightarrow>
          let commentIds = post_comments s postId
          in if commentIds = [] then Success 200 []
             else Success 200 (List.map_filter (load_comment s) commentIds))"

definition handleCreateComment ::
  "string option \<Rightarrow> string \<Rightarrow> string \<Rightarrow> user \<Rightarrow> string \<Rightarrow> int \<Rightarrow> store
     \<Rightarrow> comment_view response \<times> store" where
  "handleCreateComment body_content postId userId usr commentId now s =
     (case post_record s postId of
        None \<Rightarrow> (Failure 404 ''Post not found'', s)
      | Some postData \<Rightarrow>
          if \<not> truthy body_content
          then (Failure 400 ''Comment content is required'', s)
          else
            let c = \<lparr>comment_id = commentId, c_postId = postId, c_content = the body_content,
                     c_authorId = userId, c_authorName = display_name usr, c_createdAt = now\<rparr>;
                s1 = s\<lparr>comment_hash := (comment_hash s)(commentId \<mapsto> c)\<rparr>;
                s2 = s1\<lparr>post_comments := lpush postId commentId (post_comments s1)\<rparr>;
                s3 = s2\<lparr>user_comments := lpush userId commentId (user_comments s2)\<rparr>
            in (Success 201 \<lparr>cv_comment = c, cv_likes = 0\<rparr>, s3))"

subsection \<open>Likes and bookmarks\<close>

text \<open>
  The body's \<^verbatim>\<open>action\<close> defaults to \<^verbatim>\<open>'like'\<close>; any other text than
  \<^verbatim>\<open>'like'\<close> and \<^verbatim>\<open>'unlike'\<close> changes nothing. The response is the pair of
  \<^verbatim>\<open>likes\<close> and \<^verbatim>\<open>isLiked\<close>.
\<close>

definition handleLikePost ::
  "string option \<Rightarrow> string \<Rightarrow> string \<Rightarrow> store \<Rightarrow> (nat \<times> bool) response \<times> store" where
  "handleLikePost body_action postId userId s =
     (case post_record s postId of
        None \<Rightarrow> (Failure 404 ''Post not found'', s)
      | Some postData \<Rightarrow>
          let action = (case body_action of None \<Rightarrow> ''like'' | Some a \<Rightarrow> a);
              s1 = (if action = ''like''
                    then s\<lparr>post_likes := sadd postId userId (post_likes s)\<rparr>
                    else if action = ''unlike''
                    then s\<lparr>post_likes := srem postId userId (post_likes s)\<rparr>
                    else s)
          in (Success 200 (card (post_likes s1 postId), action = ''like''), s1))"

definition handleBookmarkPost ::
  "string option \<Rightarrow> string \<Rightarrow> string \<Rightarrow> store \<Rightarrow> bool response \<times> store" where
  "handleBookmarkPost body_action postId userId s =
     (case post_record s postId of
        None \<Rightarrow> (Failure 404 ''Post not found'', s)
      | Some postData \<Rightarrow>
          let action = (case body_action of None \<Rightarrow> ''bookmark'' | Some a \<Rightarrow> a);
              s1 = (if action = ''bookmark''
                    then s\<lparr>user_bookmarks := sadd_al userId postId (user_bookmarks s)\<rparr>
                    else if action = ''unbookmark''
                    then s\<lparr>user_bookmarks := srem_al userId postId (user_bookmarks s)\<rparr>
                    else s)
          in (Success 200 (action = ''bookmark''), s1))"

subsection \<open>The tags of a listed post\<close>

text \<open>
  \<^verbatim>\<open>handleGetPosts\<close> parses the tags of every post it loads in the guarded form above,
  and its tags filter keeps the posts for which
  \<^verbatim>\<open>post.tags.some((tag) => tagArray.includes(tag))\<close> holds, where \<^verbatim>\<open>tagArray\<close> is
  \<^verbatim>\<open>tags.split(',').map((tag) => tag.trim())\<close>. Only an array has \<^verbatim>\<open>some\<close>; on
  any other value the call raises (\<open>None\<close>). The requested tags are strings, so an
  element that is no string is none of them.
\<close>

definition tags_filter :: "string \<Rightarrow> jsval \<Rightarrow> bool option" where
  "tags_filter tgs postTags =
     (let tagArray = map trim (split_str CHR '','' tgs)
      in case postTags of
           JArr xs \<Rightarrow>
             Some (list_ex (\<lambda>tag. case tag of JStr x \<Rightarrow> x \<in> set tagArray | _ \<Rightarrow> False) xs)
         | _ \<Rightarrow> None)"

subsection \<open>The categories the client offers\<close>

text \<open>
  The handlers hold no list of categories. The only one in the repository is the
  client's, in \<^verbatim>\<open>src/pages/CommunityBoardPage.tsx\<close>, from which the select box of
  the post form is filled.
\<close>

definition categories :: "string list" where
  "categories = [''question'', ''idea'', ''showcase'', ''resource'', ''team'', ''announcement'']"

subsection \<open>A small board\<close>

text \<open>Concrete users, requests and stores, on which the handlers are run below.\<close>

definition empty_store :: store where
  "empty_store =
     \<lparr>post_hash = Map.empty, posts_list = [], user_posts = (\<lambda>k. []),
      category_set = (\<lambda>k. {}), tag_set = (\<lambda>k. {}), post_likes = (\<lambda>k. {}),
      post_comments = (\<lambda>k. []), comment_hash = Map.empty, comment_likes = (\<lambda>k. {}),
      user_comments = (\<lambda>k. []), user_bookmarks = []\<rparr>"

definition alice :: user where
  "alice = \<lparr>name = Some ''Alice'', username = Some ''alice'', role = Some ''user''\<rparr>"

definition bob :: user where
  "bob = \<lparr>name = None, username = Some ''bob'', role = Some ''user''\<rparr>"

definition post_p1 :: post where
  "post_p1 =
     \<lparr>post_id = ''p1'', title = ''T'', content = ''C'', category = ''idea'', tags = [''ai''],
      authorId = ''u1'', authorName = ''Alice'', createdAt = 1000, updatedAt = 1000\<rparr>"

definition post_p2 :: post where
  "post_p2 =
     \<lparr>post_id = ''p2'', title = ''Chains'', content = ''Blocks'', category = ''idea'',
      tags = [''web3''], authorId = ''u2'', authorName = ''bob'', createdAt = 2000,
      updatedAt = 2000\<rparr>"

text \<open>The board after Alice posted \<open>p1\<close>, Bob posted \<open>p2\<close> and Bob bookmarked \<open>p1\<close>.\<close>

definition board :: store where
  "board =
     \<lparr>post_hash = [''p1'' \<mapsto> post_p1, ''p2'' \<mapsto> post_p2],
      posts_list = [''p2'', ''p1''],
      user_posts = (\<lambda>k. if k = ''u1'' then [''p1''] else if k = ''u2'' then [''p2''] else []),
      category_set = (\<lambda>k. if k = ''idea'' then {''p1'', ''p2''} else {}),
      tag_set = (\<lambda>k. if k = ''ai'' then {''p1''} else if k = ''web3'' then {''p2''} else {}),
      post_likes = (\<lambda>k. {}),
      post_comments = (\<lambda>k. []),
      comment_hash = Map.empty,
      comment_likes = (\<lambda>k. {}),
      user_comments = (\<lambda>k. []),
      user_bookmarks = [(''u2'', {''p1''})]\<rparr>"

subsection \<open>A run of comments\<close>

text \<open>
  One call of \<^verbatim>\<open>handleCreateComment\<close> with a content that is present: the content, the
  caller, and the identifier and the instant the call draws. \<open>new_comment\<close> is the
  \<^verbatim>\<open>comment\<close> object the handler builds from them, and \<open>add_comments\<close> makes the calls
  of a list one after the other on the same post.
\<close>

record comment_request =
  r_content :: string
  r_userId :: string
  r_user :: user
  r_commentId :: string
  r_now :: int

definition new_comment :: "string \<Rightarrow> comment_request \<Rightarrow> comment" where
  "new_comment pid r =
     \<lparr>comment_id = r_commentId r, c_postId = pid, c_content = r_content r,
      c_authorId = r_userId r, c_authorName = display_name (r_user r), c_createdAt = r_now r\<rparr>"

definition add_comment :: "string \<Rightarrow> comment_request \<Rightarrow> store \<Rightarrow> store" where
  "add_comment pid r s =
     snd (handleCreateComment (Some (r_content r)) pid (r_userId r) (r_user r)
            (r_commentId r) (r_now r) s)"

definition add_comments :: "string \<Rightarrow> comment_request list \<Rightarrow> store \<Rightarrow> store" where
  "add_comments pid rs s = fold (add_comment pid) rs s"

definition first_request :: comment_request where
  "first_request =
     \<lparr>r_content = ''first'', r_userId = ''u2'', r_user = bob, r_commentId = ''c1'',
      r_now = 3000\<rparr>"

definition second_request :: comment_request where
  "second_request =
     \<lparr>r_content = ''second'', r_userId = ''u1'', r_user = alice, r_commentId = ''c2'',
      r_now = 4000\<rparr>"

text \<open>The board after Bob and then Alice commented on \<open>p1\<close>.\<close>

definition board_one_comment :: store where
  "board_one_comment =
     snd (handleCreateComment (Some ''first'') ''p1'' ''u2'' bob ''c1'' 3000 board)"

definition board_two_comments :: store where
  "board_two_comments =
     snd (handleCreateComment (Some ''second'') ''p1'' ''u1'' alice ''c2'' 4000
            board_one_comment)"

text \<open>The board with two comments on \<open>p1\<close>, after Bob liked \<open>p1\<close> as well.\<close>

definition busy_board :: store where
  "busy_board = snd (handleLikePost (Some ''like'') ''p1'' ''u2'' board_two_comments)"

section \<open>Properties\<close>

subsection \<open>Facts about the primitives\<close>

lemma post_record_Some:
  "post_record s pid = Some p \<longleftrightarrow> post_hash s pid = Some p \<and> post_id p \<noteq> []"
  by (auto simp: post_record_def split: option.splits)

lemma sadd_idem: "sadd k v (sadd k v f) = sadd k v f"
  by (simp add: sadd_def)

lemma srem_absent: "v \<notin> f k \<Longrightarrow> srem k v f = f"
  by (simp add: srem_def fun_eq_iff)

lemma fold_sadd:
  "fold (\<lambda>tag. sadd tag v) ts f k = (if k \<in> set ts then insert v (f k) else f k)"
  by (induction ts arbitrary: f) (auto simp: sadd_def)

lemma fold_srem:
  "fold (\<lambda>tag. srem tag v) ts f k = (if k \<in> set ts then f k - {v} else f k)"
  by (induction ts arbitrary: f) (auto simp: srem_def)

lemma smembers_al_srem_al:
  "smembers_al (srem_al k v t) u = (if u = k then smembers_al t k - {v} else smembers_al t u)"
  by (simp add: smembers_al_def srem_al_def Let_def update_conv' delete_conv')

lemma smembers_al_sadd_al:
  "smembers_al (sadd_al k v t) u = (if u = k then insert v (smembers_al t k) else smembers_al t u)"
  by (simp add: smembers_al_def sadd_al_def update_conv')

lemma fold_srem_al:
  "smembers_al (fold (\<lambda>key. srem_al key v) ks t) u
     = (if u \<in> set ks then smembers_al t u - {v} else smembers_al t u)"
  by (induction ks arbitrary: t) (auto simp: smembers_al_srem_al)

lemma smembers_al_no_key: "u \<notin> set (keys_al t) \<Longrightarrow> smembers_al t u = {}"
  by (simp add: smembers_al_def keys_al_def map_of_eq_None_iff [THEN iffD2])

lemma srem_every_key:
  "v \<notin> smembers_al (fold (\<lambda>key. srem_al key v) (keys_al t) t) u"
  by (cases "u \<in> set (keys_al t)") (simp_all add: fold_srem_al smembers_al_no_key)

subsection \<open>Likes\<close>

text \<open>
  C7. Liking a post twice leaves the store, and with it the membership of the like set,
  as liking it once does, and both calls answer with the same count; unliking a post
  whose like set does not hold the caller leaves the store as it was, and the count
  answered is the count before the call. This holds for every caller and post
  identifier, also one that names no post, where nothing is written.
\<close>

theorem C7_like_idempotent:
  "snd (handleLikePost (Some ''like'') pid uid (snd (handleLikePost (Some ''like'') pid uid s)))
     = snd (handleLikePost (Some ''like'') pid uid s)
   \<and> fst (handleLikePost (Some ''like'') pid uid (snd (handleLikePost (Some ''like'') pid uid s)))
     = fst (handleLikePost (Some ''like'') pid uid s)
   \<and> (uid \<notin> post_likes s pid \<longrightarrow>
        snd (handleLikePost (Some ''unlike'') pid uid s) = s
      \<and> (\<forall>p. post_record s pid = Some p \<longrightarrow>
           fst (handleLikePost (Some ''unlike'') pid uid s)
             = Success 200 (card (post_likes s pid), False)))"
  by (cases "post_record s pid")
     (simp_all add: handleLikePost_def post_record_def sadd_def srem_absent srem_def
        split: option.splits)

theorem C7_like_idempotent_witness:
  "''u2'' \<notin> post_likes board ''p1''
   \<and> snd (handleLikePost (Some ''unlike'') ''p1'' ''u2'' board) = board
   \<and> fst (handleLikePost (Some ''unlike'') ''p1'' ''u2'' board) = Success 200 (0, False)
   \<and> fst (handleLikePost (Some ''like'') ''p1'' ''u2''
            (snd (handleLikePost (Some ''like'') ''p1'' ''u2'' board))) = Success 200 (1, True)"
  using C7_like_idempotent [of "''p1''" "''u2''" board]
  by (simp add: board_def post_record_def post_p1_def handleLikePost_def sadd_def)

subsection \<open>Authorization\<close>

text \<open>
  C9. When the post exists and the caller is neither its author nor an administrator,
  updating and deleting both answer 403 and return the store they were given: the record
  and every index are as before.
\<close>

theorem C9_forbidden_no_effect:
  assumes "post_record s pid = Some p" and "authorId p \<noteq> uid" and "role usr \<noteq> Some ''admin''"
  shows "handleUpdatePost nt body pid uid usr now s
           = (Failure 403 ''You do not have permission to update this post'', s)
       \<and> handleDeletePost nt pid uid usr s
           = (Failure 403 ''You do not have permission to delete this post'', s)"
  using assms by (simp add: handleUpdatePost_def handleDeletePost_def)

theorem C9_forbidden_no_effect_witness:
  "post_record board ''p1'' = Some post_p1 \<and> authorId post_p1 \<noteq> ''u2''
   \<and> role bob \<noteq> Some ''admin''
   \<and> handleUpdatePost (\<lambda>lit. lit) \<lparr>b_title = Some ''X'', b_content = None, b_category = None, b_tags = None\<rparr>
        ''p1'' ''u2'' bob 3000 board
        = (Failure 403 ''You do not have permission to update this post'', board)
   \<and> handleDeletePost (\<lambda>lit. lit) ''p1'' ''u2'' bob board
        = (Failure 403 ''You do not have permission to delete this post'', board)"
proof -
  have h1: "post_record board ''p1'' = Some post_p1"
    by (simp add: post_record_def board_def post_p1_def)
  have h2: "authorId post_p1 \<noteq> ''u2''" by (simp add: post_p1_def)
  have h3: "role bob \<noteq> Some ''admin''" by (simp add: bob_def)
  show ?thesis using h1 h2 h3 C9_forbidden_no_effect [OF h1 h2 h3] by simp
qed

subsection \<open>Validation\<close>

text \<open>
  C5 as stated fails: the handlers test the fields for presence and emptiness only
  (\<^verbatim>\<open>!title || !content\<close>, \<^verbatim>\<open>!content\<close>) and trim nothing. A title of two
  spaces is empty after trimming, yet the post is created with status 201 and enters
  the global list; a comment of two spaces is stored in the same way.
\<close>

theorem C5_counterexample:
  "trim ''  '' = [] \<and>
   statusCode (fst (handleCreatePost
       \<lparr>b_title = Some ''  '', b_content = Some ''C'', b_category = None, b_tags = None\<rparr>
       ''u1'' alice ''p9'' 1000 empty_store)) = 201 \<and>
   posts_list (snd (handleCreatePost
       \<lparr>b_title = Some ''  '', b_content = Some ''C'', b_category = None, b_tags = None\<rparr>
       ''u1'' alice ''p9'' 1000 empty_store)) = [''p9''] \<and>
   statusCode (fst (handleCreateComment (Some ''  '') ''p1'' ''u2'' bob ''c1'' 3000 board)) = 201 \<and>
   post_comments (snd (handleCreateComment (Some ''  '') ''p1'' ''u2'' bob ''c1'' 3000 board)) ''p1''
     = [''c1'']"
  by (simp add: trim_def is_space_def handleCreatePost_def handleCreateComment_def truthy_def
        empty_store_def board_def post_record_def post_p1_def lpush_def Let_def)

text \<open>
  C5, amended. Creating a post whose title or content is absent or the empty string
  answers 400 and returns the store it was given; so does adding a comment whose
  content is absent or the empty string to a post that exists.
\<close>

theorem C5_required_fields:
  "(\<not> truthy (b_title body) \<or> \<not> truthy (b_content body) \<longrightarrow>
      handleCreatePost body uid usr nid now s
        = (Failure 400 ''Title and content are required'', s))
   \<and> (post_record s pid \<noteq> None \<and> \<not> truthy cbody \<longrightarrow>
      handleCreateComment cbody pid uid usr cid now s
        = (Failure 400 ''Comment content is required'', s))"
  by (auto simp: handleCreatePost_def handleCreateComment_def Let_def)

theorem C5_required_fields_witness:
  "\<not> truthy (b_title \<lparr>b_title = Some [], b_content = Some ''C'', b_category = None, b_tags = None\<rparr>)
   \<and> handleCreatePost
        \<lparr>b_title = Some [], b_content = Some ''C'', b_category = None, b_tags = None\<rparr>
        ''u1'' alice ''p9'' 1000 board
        = (Failure 400 ''Title and content are required'', board)
   \<and> post_record board ''p1'' \<noteq> None \<and> \<not> truthy (Some [])
   \<and> handleCreateComment (Some []) ''p1'' ''u1'' alice ''c1'' 1000 board
        = (Failure 400 ''Comment content is required'', board)"
  using C5_required_fields
    [where body = "\<lparr>b_title = Some [], b_content = Some ''C'', b_category = None, b_tags = None\<rparr>"
       and uid = "''u1''" and usr = alice and nid = "''p9''" and now = 1000 and s = board
       and pid = "''p1''" and cbody = "Some []" and cid = "''c1''"]
  by (simp add: truthy_def post_record_def board_def post_p1_def)

subsection \<open>The category of a new post\<close>

text \<open>
  C6 as stated fails: the handler never compares the category with a list. The category
  \<open>xyz\<close> is none of the client's categories, and it is stored as given.
\<close>

theorem C6_counterexample:
  "''xyz'' \<notin> set categories \<and>
   map_option category (post_hash (snd (handleCreatePost
       \<lparr>b_title = Some ''T'', b_content = Some ''C'', b_category = Some ''xyz'', b_tags = None\<rparr>
       ''u1'' alice ''p9'' 1000 empty_store)) ''p9'') = Some ''xyz''"
  by (simp add: categories_def handleCreatePost_def truthy_def empty_store_def Let_def)

text \<open>
  C6, amended. A post created with title and content is stored with the category
  \<open>discussion\<close> when the body has no category, and with the category of the body
  otherwise, whatever text that is.
\<close>

theorem C6_category_stored:
  "truthy (b_title body) \<and> truthy (b_content body) \<longrightarrow>
     statusCode (fst (handleCreatePost body uid usr nid now s)) = 201
     \<and> map_option category (post_hash (snd (handleCreatePost body uid usr nid now s)) nid)
         = Some (case b_category body of None \<Rightarrow> ''discussion'' | Some c \<Rightarrow> c)"
  by (simp add: handleCreatePost_def Let_def)

theorem C6_category_stored_witness:
  "truthy (Some ''T'') \<and> truthy (Some ''C'') \<and>
   map_option category (post_hash (snd (handleCreatePost
       \<lparr>b_title = Some ''T'', b_content = Some ''C'', b_category = None, b_tags = None\<rparr>
       ''u1'' alice ''p9'' 1000 board)) ''p9'') = Some ''discussion''"
  using C6_category_stored
    [of "\<lparr>b_title = Some ''T'', b_content = Some ''C'', b_category = None, b_tags = None\<rparr>"
        "''u1''" alice "''p9''" 1000 board]
  by (simp add: truthy_def)

subsection \<open>Creating\<close>

text \<open>
  C2. When creating a post answers with success, the status is 201, the record is stored
  under the new identifier, and that identifier is in the global list, in the list of the
  author, in the set of the post's category and in the set of every tag of the post.
\<close>

theorem C2_created_post_indexed:
  assumes "handleCreatePost body uid usr nid now s = (Success c pv, s')"
  shows "c = 201
       \<and> post_hash s' nid = Some (pv_post pv)
       \<and> post_id (pv_post pv) = nid \<and> authorId (pv_post pv) = uid
       \<and> nid \<in> set (posts_list s')
       \<and> nid \<in> set (user_posts s' (authorId (pv_post pv)))
       \<and> nid \<in> category_set s' (category (pv_post pv))
       \<and> (\<forall>t \<in> set (tags (pv_post pv)). nid \<in> tag_set s' t)"
proof -
  have ok: "truthy (b_title body) \<and> truthy (b_content body)"
    using assms by (auto simp: handleCreatePost_def Let_def split: if_splits)
  show ?thesis
    using assms ok
    by (auto simp: handleCreatePost_def Let_def lpush_def sadd_def fold_sadd)
qed

theorem C2_created_post_indexed_witness:
  "handleCreatePost
     \<lparr>b_title = Some ''New'', b_content = Some ''Text'', b_category = Some ''showcase'',
      b_tags = Some [''react'']\<rparr> ''u1'' alice ''p3'' 5000 board
     = (Success 201
          \<lparr>pv_post = \<lparr>post_id = ''p3'', title = ''New'', content = ''Text'',
                       category = ''showcase'', tags = [''react''], authorId = ''u1'',
                       authorName = ''Alice'', createdAt = 5000, updatedAt = 5000\<rparr>,
           likes = 0, comments = 0\<rparr>,
        snd (handleCreatePost
          \<lparr>b_title = Some ''New'', b_content = Some ''Text'', b_category = Some ''showcase'',
           b_tags = Some [''react'']\<rparr> ''u1'' alice ''p3'' 5000 board))
   \<and> ''p3'' \<in> set (posts_list (snd (handleCreatePost
          \<lparr>b_title = Some ''New'', b_content = Some ''Text'', b_category = Some ''showcase'',
           b_tags = Some [''react'']\<rparr> ''u1'' alice ''p3'' 5000 board)))
   \<and> ''p3'' \<in> set (user_posts (snd (handleCreatePost
          \<lparr>b_title = Some ''New'', b_content = Some ''Text'', b_category = Some ''showcase'',
           b_tags = Some [''react'']\<rparr> ''u1'' alice ''p3'' 5000 board)) ''u1'')
   \<and> ''p3'' \<in> category_set (snd (handleCreatePost
          \<lparr>b_title = Some ''New'', b_content = Some ''Text'', b_category = Some ''showcase'',
           b_tags = Some [''react'']\<rparr> ''u1'' alice ''p3'' 5000 board)) ''showcase''
   \<and> ''p3'' \<in> tag_set (snd (handleCreatePost
          \<lparr>b_title = Some ''New'', b_content = Some ''Text'', b_category = Some ''showcase'',
           b_tags = Some [''react'']\<rparr> ''u1'' alice ''p3'' 5000 board)) ''react''"
proof -
  have h: "handleCreatePost
     \<lparr>b_title = Some ''New'', b_content = Some ''Text'', b_category = Some ''showcase'',
      b_tags = Some [''react'']\<rparr> ''u1'' alice ''p3'' 5000 board
     = (Success 201
          \<lparr>pv_post = \<lparr>post_id = ''p3'', title = ''New'', content = ''Text'',
                       category = ''showcase'', tags = [''react''], authorId = ''u1'',
                       authorName = ''Alice'', createdAt = 5000, updatedAt = 5000\<rparr>,
           likes = 0, comments = 0\<rparr>,
        snd (handleCreatePost
          \<lparr>b_title = Some ''New'', b_content = Some ''Text'', b_category = Some ''showcase'',
           b_tags = Some [''react'']\<rparr> ''u1'' alice ''p3'' 5000 board))"
    by (simp add: handleCreatePost_def truthy_def display_name_def alice_def Let_def)
  show ?thesis using h C2_created_post_indexed [OF h] by simp
qed

text \<open>
  C8 does not hold of the handlers. \<^verbatim>\<open>handleGetPost\<close> is handed the stored tags as a
  list and parses them again; the list \<open>[a, b]\<close> becomes the text \<open>a,b\<close>, which is not
  JSON, the guarded parse fails, and the answer carries the empty list of tags. Title,
  content and the two counts are as the claim says.
\<close>

theorem C8_tags_lost_on_read:
  "handleGetPost ''p3''
     (snd (handleCreatePost
             \<lparr>b_title = Some ''T'', b_content = Some ''C'', b_category = None,
              b_tags = Some [''a'', ''b'']\<rparr>
             ''u1'' alice ''p3'' 5000 board))
     = Success 200
         \<lparr>pr_id = ''p3'', pr_title = ''T'', pr_content = ''C'', pr_category = ''discussion'',
          pr_tags = JArr [], pr_authorId = ''u1'', pr_authorName = ''Alice'',
          pr_createdAt = 5000, pr_updatedAt = 5000, pr_likes = 0, pr_comments = 0\<rparr>"
  by (simp add: handleGetPost_def handleCreatePost_def post_record_def truthy_def
        display_name_def alice_def board_def read_view_def parsed_tags_def reparse_tags_def
        JSON_parse_def lex_step_def lex_start_def is_digit_def Let_def)

theorem C8_tags_lost_on_read_witness:
  "truthy (Some ''T'') \<and> truthy (Some ''C'')
   \<and> (\<exists>r. handleGetPost ''p3''
          (snd (handleCreatePost
                  \<lparr>b_title = Some ''T'', b_content = Some ''C'', b_category = None,
                   b_tags = Some [''a'', ''b'']\<rparr>
                  ''u1'' alice ''p3'' 5000 board)) = Success 200 r
        \<and> pr_title r = ''T'' \<and> pr_content r = ''C'' \<and> pr_tags r = JArr []
        \<and> pr_likes r = 0 \<and> pr_comments r = 0)"
  using C8_tags_lost_on_read by (simp add: truthy_def)

subsection \<open>Deleting\<close>

text \<open>
  C1 does not hold of the handlers. \<^verbatim>\<open>handleDeletePost\<close> removes the record, the
  entries in the global list and the author's list and the entry in the category set,
  and then parses the stored tags again, unguarded. On the busy board Alice deletes her
  post \<open>p1\<close>, tagged \<open>ai\<close>: the text \<open>ai\<close> is not JSON, the handler raises and the call
  answers 500. The record is gone, so reading \<open>p1\<close> answers 404, but \<open>p1\<close> is still in
  the tag set of \<open>ai\<close> and in Bob's bookmark set, and its like set and comment list are
  still there.
\<close>

theorem C1_delete_stops_at_tags:
  "fst (handleDeletePost nt ''p1'' ''u1'' alice busy_board)
     = Failure 500 ''Internal server error''
   \<and> post_hash (snd (handleDeletePost nt ''p1'' ''u1'' alice busy_board)) ''p1'' = None
   \<and> posts_list (snd (handleDeletePost nt ''p1'' ''u1'' alice busy_board)) = [''p2'']
   \<and> user_posts (snd (handleDeletePost nt ''p1'' ''u1'' alice busy_board)) ''u1'' = []
   \<and> category_set (snd (handleDeletePost nt ''p1'' ''u1'' alice busy_board)) ''idea'' = {''p2''}
   \<and> handleGetPost ''p1'' (snd (handleDeletePost nt ''p1'' ''u1'' alice busy_board))
       = Failure 404 ''Post not found''
   \<and> ''p1'' \<in> tag_set (snd (handleDeletePost nt ''p1'' ''u1'' alice busy_board)) ''ai''
   \<and> post_likes (snd (handleDeletePost nt ''p1'' ''u1'' alice busy_board)) ''p1'' = {''u2''}
   \<and> post_comments (snd (handleDeletePost nt ''p1'' ''u1'' alice busy_board)) ''p1''
       = [''c2'', ''c1'']
   \<and> ''p1'' \<in> smembers_al
        (user_bookmarks (snd (handleDeletePost nt ''p1'' ''u1'' alice busy_board))) ''u2''"
proof -
  have rec: "post_record busy_board ''p1'' = Some post_p1"
    by (simp add: busy_board_def board_two_comments_def board_one_comment_def
          handleLikePost_def handleCreateComment_def post_record_def board_def post_p1_def
          truthy_def Let_def)
  have stop: "reparse_tags (tags post_p1) = None"
    by (simp add: post_p1_def reparse_tags_def JSON_parse_def lex_step_def lex_start_def
          is_digit_def)
  have auth: "\<not> (authorId post_p1 \<noteq> ''u1'' \<and> role alice \<noteq> Some ''admin'')"
    by (simp add: post_p1_def)
  have run: "handleDeletePost nt ''p1'' ''u1'' alice busy_board
      = (Failure 500 ''Internal server error'',
         busy_board\<lparr>post_hash := (post_hash busy_board)(''p1'' := None),
                     posts_list := removeAll ''p1'' (posts_list busy_board),
                     user_posts := lrem (authorId post_p1) ''p1'' (user_posts busy_board),
                     category_set := srem (category post_p1) ''p1'' (category_set busy_board)\<rparr>)"
    by (simp add: handleDeletePost_def rec stop auth Let_def)
  show ?thesis
    unfolding run
    by (simp add: busy_board_def board_two_comments_def board_one_comment_def
          handleLikePost_def handleCreateComment_def handleGetPost_def post_record_def
          board_def post_p1_def truthy_def lrem_def srem_def sadd_def lpush_def
          smembers_al_def Let_def)
qed

theorem C1_delete_stops_at_tags_witness:
  "post_record busy_board ''p1'' = Some post_p1
   \<and> (authorId post_p1 = ''u1'' \<or> role alice = Some ''admin'')
   \<and> fst (handleDeletePost (\<lambda>lit. lit) ''p1'' ''u1'' alice busy_board)
       = Failure 500 ''Internal server error''
   \<and> ''p1'' \<in> tag_set (snd (handleDeletePost (\<lambda>lit. lit) ''p1'' ''u1'' alice busy_board)) ''ai''
   \<and> ''p1'' \<in> smembers_al
        (user_bookmarks (snd (handleDeletePost (\<lambda>lit. lit) ''p1'' ''u1'' alice busy_board)))
        ''u2''"
proof -
  have rec: "post_record busy_board ''p1'' = Some post_p1"
    by (simp add: busy_board_def board_two_comments_def board_one_comment_def
          handleLikePost_def handleCreateComment_def post_record_def board_def post_p1_def
          truthy_def Let_def)
  have auth: "authorId post_p1 = ''u1'' \<or> role alice = Some ''admin''"
    by (simp add: post_p1_def)
  show ?thesis
    using rec auth C1_delete_stops_at_tags [of "\<lambda>lit. lit"] by simp
qed

text \<open>
  What the handler does past that parse: when the stored tags, joined by commas, do form
  JSON that can be iterated, the deletion runs to its end.
\<close>

lemma handleDeletePost_completes:
  assumes "post_record s pid = Some p" and "authorId p = uid \<or> role usr = Some ''admin''"
    and "reparse_tags (tags p) = Some v" and "iterate nt v = Some keys"
  shows "\<exists>s'. handleDeletePost nt pid uid usr s = (Success 200 ''Post deleted successfully'', s')
       \<and> pid \<notin> set (posts_list s')
       \<and> pid \<notin> set (user_posts s' (authorId p))
       \<and> pid \<notin> category_set s' (category p)
       \<and> (\<forall>t \<in> set keys. pid \<notin> tag_set s' t)
       \<and> (\<forall>u. pid \<notin> smembers_al (user_bookmarks s') u)
       \<and> post_hash s' pid = None
       \<and> post_likes s' pid = {}
       \<and> post_comments s' pid = []"
proof -
  have auth: "\<not> (authorId p \<noteq> uid \<and> role usr \<noteq> Some ''admin'')"
    using assms(2) by blast
  show ?thesis
    using assms(1,3,4) auth
    by (simp add: handleDeletePost_def Let_def lrem_def srem_def fold_srem srem_every_key)
qed

subsection \<open>Updating\<close>

text \<open>
  C10 does not hold of the handlers. With tags in the body, \<^verbatim>\<open>handleUpdatePost\<close> parses
  the stored tags again, unguarded, before it writes the record. Alice updates her post
  \<open>p1\<close>, tagged \<open>ai\<close>, with an empty title and new tags: the handler raises, the call
  answers 500 and the store is the one it was given, so \<open>updatedAt\<close> is not refreshed.
  Without tags in the body the record is written as the claim says, title kept and
  \<open>updatedAt\<close> refreshed, and the parse made for the response then fails, so that call
  answers 500 as well.
\<close>

theorem C10_update_with_tags_writes_nothing:
  "handleUpdatePost nt
     \<lparr>b_title = Some [], b_content = None, b_category = None, b_tags = Some [''x'']\<rparr>
     ''p1'' ''u1'' alice 5000 board
     = (Failure 500 ''Internal server error'', board)
   \<and> map_option updatedAt (post_hash board ''p1'') = Some 1000
   \<and> fst (handleUpdatePost nt
        \<lparr>b_title = Some [], b_content = None, b_category = None, b_tags = None\<rparr>
        ''p1'' ''u1'' alice 5000 board)
       = Failure 500 ''Internal server error''
   \<and> post_hash (snd (handleUpdatePost nt
        \<lparr>b_title = Some [], b_content = None, b_category = None, b_tags = None\<rparr>
        ''p1'' ''u1'' alice 5000 board)) ''p1''
       = Some (post_p1\<lparr>updatedAt := 5000\<rparr>)"
proof -
  have rec: "post_record board ''p1'' = Some post_p1"
    by (simp add: post_record_def board_def post_p1_def)
  have stop: "reparse_tags (tags post_p1) = None"
    by (simp add: post_p1_def reparse_tags_def JSON_parse_def lex_step_def lex_start_def
          is_digit_def)
  have auth: "\<not> (authorId post_p1 \<noteq> ''u1'' \<and> role alice \<noteq> Some ''admin'')"
    by (simp add: post_p1_def)
  have before: "map_option updatedAt (post_hash board ''p1'') = Some 1000"
    by (simp add: board_def post_p1_def)
  show ?thesis
    by (simp add: handleUpdatePost_def rec stop auth before truthy_def Let_def)
qed

theorem C10_update_with_tags_writes_nothing_witness:
  "post_record board ''p1'' = Some post_p1
   \<and> (authorId post_p1 = ''u1'' \<or> role alice = Some ''admin'')
   \<and> handleUpdatePost (\<lambda>lit. lit)
        \<lparr>b_title = Some [], b_content = None, b_category = None, b_tags = Some [''x'']\<rparr>
        ''p1'' ''u1'' alice 5000 board
       = (Failure 500 ''Internal server error'', board)"
proof -
  have rec: "post_record board ''p1'' = Some post_p1"
    by (simp add: post_record_def board_def post_p1_def)
  have auth: "authorId post_p1 = ''u1'' \<or> role alice = Some ''admin''"
    by (simp add: post_p1_def)
  show ?thesis
    using rec auth C10_update_with_tags_writes_nothing [of "\<lambda>lit. lit"] by simp
qed

subsection \<open>The tags filter of the listing\<close>

text \<open>
  C3 does not hold of the handlers. \<^verbatim>\<open>handleGetPosts\<close> parses the tags of each post it
  loads in the same guarded way as \<^verbatim>\<open>handleGetPost\<close>, so a post stored with the tag
  \<open>ai\<close> is listed with no tags, and no post with no tags passes a tags filter. Listing
  with category \<open>idea\<close> and tags \<open>ai\<close> therefore leaves out \<open>p1\<close>, a post of category
  \<open>idea\<close> that is tagged \<open>ai\<close>, together with \<open>p2\<close>, which is tagged \<open>web3\<close>.
\<close>

theorem C3_tagged_post_fails_tags_filter:
  "category post_p1 = ''idea'' \<and> tags post_p1 = [''ai'']
   \<and> parsed_tags (tags post_p1) = JArr []
   \<and> tags_filter ''ai'' (parsed_tags (tags post_p1)) = Some False
   \<and> tags_filter req (JArr []) = Some False"
  by (simp add: post_p1_def parsed_tags_def reparse_tags_def JSON_parse_def lex_step_def
        lex_start_def is_digit_def tags_filter_def Let_def)

theorem C3_tagged_post_fails_tags_filter_witness:
  "tags post_p1 = [''ai''] \<and> tags_filter ''ai'' (parsed_tags [''ai'']) = Some False
   \<and> tags_filter ''web3, ai'' (JArr []) = Some False"
proof -
  from C3_tagged_post_fails_tags_filter [of "''web3, ai''"]
  have t: "tags post_p1 = [''ai'']"
    and f: "tags_filter ''ai'' (parsed_tags (tags post_p1)) = Some False"
    and e: "tags_filter ''web3, ai'' (JArr []) = Some False"
    by blast+
  from f have "tags_filter ''ai'' (parsed_tags [''ai'']) = Some False"
    unfolding t .
  with t e show ?thesis by blast
qed

subsection \<open>Listing comments\<close>

lemma handleGetComments_listing:
  "post_record s pid = Some p \<Longrightarrow>
     handleGetComments pid s = Success 200 (List.map_filter (load_comment s) (post_comments s pid))"
  by (simp add: handleGetComments_def Let_def)

lemma add_comment_fields:
  assumes "post_record s pid = Some p" and "r_content r \<noteq> []"
  shows "post_hash (add_comment pid r s) = post_hash s"
    and "post_comments (add_comment pid r s)
           = (post_comments s)(pid := r_commentId r # post_comments s pid)"
    and "comment_hash (add_comment pid r s)
           = (comment_hash s)(r_commentId r \<mapsto> new_comment pid r)"
    and "comment_likes (add_comment pid r s) = comment_likes s"
  using assms
  by (simp_all add: add_comment_def handleCreateComment_def truthy_def new_comment_def
        lpush_def Let_def)

lemma load_comment_add_comment_new:
  assumes "post_record s pid = Some p" and "r_content r \<noteq> []" and "r_commentId r \<noteq> []"
  shows "load_comment (add_comment pid r s) (r_commentId r)
           = Some \<lparr>cv_comment = new_comment pid r,
                   cv_likes = card (comment_likes s (r_commentId r))\<rparr>"
  using assms(3)
  by (simp add: load_comment_def add_comment_fields [OF assms(1,2)] new_comment_def)

lemma load_comment_add_comment_old:
  assumes "post_record s pid = Some p" and "r_content r \<noteq> []" and "cid \<noteq> r_commentId r"
  shows "load_comment (add_comment pid r s) cid = load_comment s cid"
  using assms(3)
  by (simp add: load_comment_def add_comment_fields [OF assms(1,2)] split: option.splits)

lemma map_filter_cong_set:
  "(\<And>x. x \<in> set xs \<Longrightarrow> f x = g x) \<Longrightarrow> List.map_filter f xs = List.map_filter g xs"
  by (induction xs) (auto split: option.splits)

lemma listing_after_add_comment:
  assumes "post_record s pid = Some p" and "r_content r \<noteq> []" and "r_commentId r \<noteq> []"
    and "r_commentId r \<notin> set (post_comments s pid)"
  shows "List.map_filter (load_comment (add_comment pid r s))
           (post_comments (add_comment pid r s) pid)
         = \<lparr>cv_comment = new_comment pid r, cv_likes = card (comment_likes s (r_commentId r))\<rparr>
           # List.map_filter (load_comment s) (post_comments s pid)"
proof -
  have old: "List.map_filter (load_comment (add_comment pid r s)) (post_comments s pid)
           = List.map_filter (load_comment s) (post_comments s pid)"
    using assms(4)
    by (intro map_filter_cong_set load_comment_add_comment_old [OF assms(1,2)]) auto
  show ?thesis
    by (simp add: add_comment_fields(2) [OF assms(1,2)]
          load_comment_add_comment_new [OF assms(1,2,3)] old)
qed

lemma add_comments_snoc: "add_comments pid (rs @ [r]) s = add_comment pid r (add_comments pid rs s)"
  by (simp add: add_comments_def)

lemma add_comments_invariant:
  assumes "post_record s pid = Some p" and "\<forall>r \<in> set rs. r_content r \<noteq> []"
  shows "post_record (add_comments pid rs s) pid = Some p
       \<and> post_comments (add_comments pid rs s) pid
           = rev (map r_commentId rs) @ post_comments s pid"
  using assms(2)
proof (induction rs rule: rev_induct)
  case Nil
  show ?case using assms(1) by (simp add: add_comments_def)
next
  case (snoc r rs)
  then have ih: "post_record (add_comments pid rs s) pid = Some p"
    and ihl: "post_comments (add_comments pid rs s) pid
           = rev (map r_commentId rs) @ post_comments s pid"
    and rc: "r_content r \<noteq> []"
    by simp_all
  show ?case
    using ih ihl
    by (simp add: add_comments_snoc post_record_def add_comment_fields [OF ih rc])
qed

text \<open>
  C4 as stated fails. A new comment's identifier is pushed onto the head of the post's
  comment list, and the list is read from its head, so the comments come latest first:
  after \<open>c1\<close> and then \<open>c2\<close> were added to \<open>p1\<close>, listing answers \<open>c2\<close> before
  \<open>c1\<close>.
\<close>

theorem C4_counterexample:
  "handleGetComments ''p1'' board_two_comments
     = Success 200
         [\<lparr>cv_comment = \<lparr>comment_id = ''c2'', c_postId = ''p1'', c_content = ''second'',
                          c_authorId = ''u1'', c_authorName = ''Alice'', c_createdAt = 4000\<rparr>,
           cv_likes = 0\<rparr>,
          \<lparr>cv_comment = \<lparr>comment_id = ''c1'', c_postId = ''p1'', c_content = ''first'',
                          c_authorId = ''u2'', c_authorName = ''bob'', c_createdAt = 3000\<rparr>,
           cv_likes = 0\<rparr>]"
  by (simp add: handleGetComments_def handleCreateComment_def board_two_comments_def
        board_one_comment_def board_def post_record_def post_p1_def load_comment_def
        truthy_def display_name_def alice_def bob_def lpush_def Let_def)

text \<open>
  C4, amended. When comments with non-empty contents and distinct, non-empty identifiers
  are added one after the other to an existing post that had no comments, listing the
  post's comments answers 200 with exactly these comments in the reverse of the order in
  which they were added: the latest-added comment first.
\<close>

theorem C4_comments_latest_first:
  assumes "post_record s pid = Some p" and "post_comments s pid = []"
    and "distinct (map r_commentId rs)"
    and "\<forall>r \<in> set rs. r_content r \<noteq> [] \<and> r_commentId r \<noteq> []"
  shows "\<exists>cs. handleGetComments pid (add_comments pid rs s) = Success 200 cs
             \<and> map cv_comment cs = rev (map (new_comment pid) rs)"
  using assms(3,4)
proof (induction rs rule: rev_induct)
  case Nil
  show ?case using assms(1,2)
    by (simp add: add_comments_def handleGetComments_listing)
next
  case (snoc r rs)
  let ?s = "add_comments pid rs s"
  from snoc.prems have cont: "\<forall>r \<in> set rs. r_content r \<noteq> []"
    and rc: "r_content r \<noteq> []" and rid: "r_commentId r \<noteq> []"
    and fresh: "r_commentId r \<notin> set (map r_commentId rs)"
    and dist: "distinct (map r_commentId rs)"
    by auto
  from add_comments_invariant [OF assms(1) cont]
  have rec: "post_record ?s pid = Some p"
    and ids: "post_comments ?s pid = rev (map r_commentId rs)"
    using assms(2) by simp_all
  from snoc.IH dist snoc.prems(2)
  have ih: "map cv_comment (List.map_filter (load_comment ?s) (post_comments ?s pid))
              = rev (map (new_comment pid) rs)"
    by (auto simp: handleGetComments_listing [OF rec])
  have fresh': "r_commentId r \<notin> set (post_comments ?s pid)"
    using fresh ids by simp
  have rec': "post_record (add_comment pid r ?s) pid = Some p"
    using rec by (simp add: post_record_def add_comment_fields(1) [OF rec rc])
  show ?case
    by (simp add: add_comments_snoc handleGetComments_listing [OF rec']
          listing_after_add_comment [OF rec rc rid fresh'] ih)
qed

theorem C4_comments_latest_first_witness:
  "post_record board ''p1'' = Some post_p1 \<and> post_comments board ''p1'' = []
   \<and> distinct (map r_commentId [first_request, second_request])
   \<and> r_content first_request \<noteq> [] \<and> r_commentId first_request \<noteq> []
   \<and> r_content second_request \<noteq> [] \<and> r_commentId second_request \<noteq> []
   \<and> (\<exists>cs. handleGetComments ''p1''
               (add_comments ''p1'' [first_request, second_request] board) = Success 200 cs
          \<and> map (comment_id \<circ> cv_comment) cs = [''c2'', ''c1''])"
proof -
  have h1: "post_record board ''p1'' = Some post_p1"
    by (simp add: post_record_def board_def post_p1_def)
  have h2: "post_comments board ''p1'' = []"
    by (simp add: board_def)
  have h3: "distinct (map r_commentId [first_request, second_request])"
    by (simp add: first_request_def second_request_def)
  have h4: "\<forall>r \<in> set [first_request, second_request]. r_content r \<noteq> [] \<and> r_commentId r \<noteq> []"
    by (simp add: first_request_def second_request_def)
  from C4_comments_latest_first [OF h1 h2 h3 h4]
  obtain cs where run: "handleGetComments ''p1''
        (add_comments ''p1'' [first_request, second_request] board) = Success 200 cs"
    and order: "map cv_comment cs
        = rev (map (new_comment ''p1'') [first_request, second_request])"
    by blast
  have "map (comment_id \<circ> cv_comment) cs = map comment_id (map cv_comment cs)"
    by simp
  also have "\<dots> = [''c2'', ''c1'']"
    by (simp add: order new_comment_def first_request_def second_request_def)
  finally have ids: "map (comment_id \<circ> cv_comment) cs = [''c2'', ''c1'']" .
  from run ids have "\<exists>cs. handleGetComments ''p1''
        (add_comments ''p1'' [first_request, second_request] board) = Success 200 cs
      \<and> map (comment_id \<circ> cv_comment) cs = [''c2'', ''c1'']"
    by (intro exI [of _ cs] conjI)
  moreover have "r_content first_request \<noteq> [] \<and> r_commentId first_request \<noteq> []
      \<and> r_content second_request \<noteq> [] \<and> r_commentId second_request \<noteq> []"
    by (simp add: first_request_def second_request_def)
  ultimately show ?thesis using h1 h2 h3 by simp
qed

end
